theory Spec2Isabelle
  imports Main
begin

section \<open>Values and errors\<close>

text \<open>
  A value of TypeScript type \<^verbatim>\<open>unknown\<close>, as far as the exercises build such values
  from object and array literals: a tree of mappings and sequences over primitives.  An
  object keeps its keys in insertion order, so it is an association list.
\<close>

datatype json =
    JUndefined
  | JNull
  | JBool bool
  | JNum int
  | JStr string
  | JArr "json list"
  | JObj "(string \<times> json) list"

text \<open>
  \<^verbatim>\<open>throw new Error(msg)\<close>: a raised error is a value carrying its message.  A call
  that can throw returns \<open>error + 'a\<close>, with \<open>Inl\<close> for the throw.
\<close>

datatype error = Error (message_of: string)

section \<open>Exercise 04: the \<^verbatim>\<open>$ref\<close> resolver\<close>

subsection \<open>Type definitions\<close>

text \<open>
  \<^verbatim>\<open>RefSchema\<close> and \<^verbatim>\<open>OpenAPIDocument\<close> are interfaces over plain objects; both
  are \<open>json\<close> values here.
  \<^verbatim>\<open>
  export interface ResolveOptions {
    circularHandling?: 'error' | 'mark' | 'lazy';
    maxDepth?: number;
    mutate?: boolean;
  }

  export interface ResolveResult<T> {
    resolved: T;
    resolvedRefs: Set<string>;
    circularRefs: Set<string>;
  }
  \<close>
  An optional field that is left out is \<open>None\<close>; an omitted \<^verbatim>\<open>options\<close> argument is
  \<open>None\<close> as well.
\<close>

datatype CircularHandling = CH_error | CH_mark | CH_lazy

record ResolveOptions =
  circularHandling :: "CircularHandling option"
  maxDepth :: "int option"
  mutate :: "bool option"

record ResolveResult =
  resolved :: json
  resolvedRefs :: "string set"
  circularRefs :: "string set"

subsection \<open>The exported functions\<close>

text \<open>
  Each of the six exported functions has the same body:
  \<^verbatim>\<open>
  export function parseJsonPointer(pointer: string): string[] {
    // TODO: Implement this function
    throw new Error('Not implemented');
  }
  \<close>
\<close>

definition parseJsonPointer :: "string \<Rightarrow> error + string list" where
  "parseJsonPointer pointer = Inl (Error ''Not implemented'')"

definition resolvePointer :: "json \<Rightarrow> string list \<Rightarrow> error + json" where
  "resolvePointer document path = Inl (Error ''Not implemented'')"

text \<open>
  \<^verbatim>\<open>resolveRefs\<close> and \<^verbatim>\<open>resolveDocument\<close> receive their objects by reference and
  carry an option (\<^verbatim>\<open>mutate\<close>) that allows rewriting them in place.  Their model
  therefore returns, next to the outcome, the contents of the argument objects when the
  call ends.  The body is the single \<^verbatim>\<open>throw\<close>: nothing is assigned, so the objects
  leave as they came.
\<close>

definition resolveRefs ::
  "json \<Rightarrow> json \<Rightarrow> ResolveOptions option \<Rightarrow> (error + ResolveResult) \<times> (json \<times> json)" where
  "resolveRefs schema document options =
     (Inl (Error ''Not implemented''), (schema, document))"

definition resolveDocument ::
  "json \<Rightarrow> ResolveOptions option \<Rightarrow> (error + ResolveResult) \<times> json" where
  "resolveDocument document options = (Inl (Error ''Not implemented''), document)"

definition hasUnresolvedRefs :: "json \<Rightarrow> error + bool" where
  "hasUnresolvedRefs schema = Inl (Error ''Not implemented'')"

definition collectRefs :: "json \<Rightarrow> error + string set" where
  "collectRefs schema = Inl (Error ''Not implemented'')"

subsection \<open>The sketch of the pointer parser in the file's hints\<close>

text \<open>
  The exercise file ends with hints, inside a comment.  The first one sketches the parser
  that the stub is meant to become; the exported \<^verbatim>\<open>parseJsonPointer\<close> does not
  call it.
  \<^verbatim>\<open>
  function unescapePointer(segment: string): string {
    return segment.replace(/~1/g, '/').replace(/~0/g, '~');
  }

  function parseJsonPointer(pointer: string): string[] {
    if (!pointer.startsWith('#/')) {
      if (pointer.startsWith('#')) return []; // Root reference
      throw new Error(`Invalid JSON pointer: ${pointer}`);
    }
    return pointer
      .slice(2)
      .split('/')
      .map(unescapePointer);
  }
  \<close>
  \<open>replaceAll pat rep s\<close> is \<^verbatim>\<open>s.replace(/pat/g, rep)\<close> for a pattern of literal
  characters: the matches are found from left to right and do not overlap.
  \<open>split sep s\<close> is \<^verbatim>\<open>s.split(sep)\<close> for a separator of one character; the empty
  string splits into one empty piece.
\<close>

function replaceAll :: "string \<Rightarrow> string \<Rightarrow> string \<Rightarrow> string" where
  "replaceAll pat rep s =
     (if pat = [] \<or> s = [] then s
      else if take (length pat) s = pat then rep @ replaceAll pat rep (drop (length pat) s)
      else hd s # replaceAll pat rep (tl s))"
  by pat_completeness auto
termination
  by (relation "measure (\<lambda>(pat, rep, s). length s)") auto

declare replaceAll.simps [simp del]

fun split :: "char \<Rightarrow> string \<Rightarrow> string list" where
  "split sep [] = [[]]"
| "split sep (c # cs) =
     (if c = sep then [] # split sep cs
      else (case split sep cs of w # ws \<Rightarrow> (c # w) # ws | [] \<Rightarrow> [[c]]))"

definition unescapePointer :: "string \<Rightarrow> string" where
  "unescapePointer segment = replaceAll ''~0'' ''~'' (replaceAll ''~1'' ''/'' segment)"

definition hint_parseJsonPointer :: "string \<Rightarrow> error + string list" where
  "hint_parseJsonPointer pointer =
     (if take 2 pointer \<noteq> ''#/'' then
        (if take 1 pointer = ''#'' then Inr []
         else Inl (Error (''Invalid JSON pointer: '' @ pointer)))
      else Inr (map unescapePointer (split CHR ''/'' (drop 2 pointer))))"

text \<open>
  The way back, in the words of the round-trip law: each segment is escaped again,
  \<^verbatim>\<open>~\<close> to \<^verbatim>\<open>~0\<close> and \<^verbatim>\<open>/\<close> to \<^verbatim>\<open>~1\<close>, and the segments are joined with
  \<^verbatim>\<open>/\<close>.  A pointer is valid when each \<^verbatim>\<open>~\<close> in it is followed by \<^verbatim>\<open>0\<close> or
  \<^verbatim>\<open>1\<close>.
\<close>

definition escapePointer :: "string \<Rightarrow> string" where
  "escapePointer segment = replaceAll ''/'' ''~1'' (replaceAll ''~'' ''~0'' segment)"

fun join :: "string \<Rightarrow> string list \<Rightarrow> string" where
  "join sep [] = []"
| "join sep [w] = w"
| "join sep (w # ws) = w @ sep @ join sep ws"

fun well_escaped :: "string \<Rightarrow> bool" where
  "well_escaped [] = True"
| "well_escaped (c # cs) =
     (if c = CHR ''~'' then
        (case cs of
           [] \<Rightarrow> False
         | d # ds \<Rightarrow> (d = CHR ''0'' \<or> d = CHR ''1'') \<and> well_escaped ds)
      else well_escaped cs)"

subsection \<open>The inputs of the test suite\<close>

text \<open>
  The documents and schemas that the tests of exercise 04 pass to the functions, written
  as the object literals of the test file.
\<close>

definition docWithArray :: json where
  "docWithArray = JObj [(''items'', JArr [JStr ''a'', JStr ''b'', JStr ''c''])]"

definition User :: json where
  "User = JObj [(''type'', JStr ''object''),
     (''properties'', JObj [(''id'', JObj [(''type'', JStr ''string'')]),
                            (''name'', JObj [(''type'', JStr ''string'')])])]"

definition Post :: json where
  "Post = JObj [(''type'', JStr ''object''),
     (''properties'', JObj [(''id'', JObj [(''type'', JStr ''string'')]),
                            (''author'', JObj [(''$ref'', JStr ''#/components/schemas/User'')])])]"

definition document_of :: "(string \<times> json) list \<Rightarrow> json" where
  "document_of schemas =
     JObj [(''openapi'', JStr ''3.0.3''),
           (''info'', JObj [(''title'', JStr ''Test''), (''version'', JStr ''1.0.0'')]),
           (''components'', JObj [(''schemas'', JObj schemas)])]"

definition baseDoc :: json where
  "baseDoc = document_of [(''User'', User), (''Post'', Post)]"

text \<open>The self-referential \<^verbatim>\<open>Node\<close> of the test of the \<^verbatim>\<open>mark\<close> mode.\<close>

definition Node_children :: json where
  "Node_children = JObj [(''type'', JStr ''object''),
     (''properties'', JObj [(''value'', JObj [(''type'', JStr ''string'')]),
        (''children'', JObj [(''type'', JStr ''array''),
           (''items'', JObj [(''$ref'', JStr ''#/components/schemas/Node'')])])])]"

text \<open>The schema \<^verbatim>\<open>A\<close> of the test of the \<^verbatim>\<open>error\<close> mode: a direct reference to itself.\<close>

definition A_self :: json where
  "A_self = JObj [(''$ref'', JStr ''#/components/schemas/A'')]"

definition external_schema :: json where
  "external_schema = JObj [(''$ref'', JStr ''./other.yaml#/schemas/Foo'')]"

definition oneOf_schema :: json where
  "oneOf_schema = JObj [(''oneOf'',
     JArr [JObj [(''$ref'', JStr ''#/components/schemas/A'')],
           JObj [(''$ref'', JStr ''#/components/schemas/B'')]])]"

text \<open>
  The tests recognise the kind of a thrown error by a word of its message
  (\<^verbatim>\<open>toThrow(/[Cc]ircular/)\<close>, \<^verbatim>\<open>toThrow(/[Ee]xternal/)\<close>): \<open>occurs_in s m\<close> says
  that \<open>s\<close> is a substring of \<open>m\<close>.
\<close>

fun occurs_in :: "string \<Rightarrow> string \<Rightarrow> bool" where
  "occurs_in s [] = (s = [])"
| "occurs_in s (c # cs) = (take (length s) (c # cs) = s \<or> occurs_in s cs)"

section \<open>Exercise 05: the error classes of the HTTP client\<close>

text \<open>
  The platform's \<^verbatim>\<open>Headers\<close> class is read here through \<^verbatim>\<open>get\<close> only.  It
  keeps header names in lower case and \<^verbatim>\<open>get\<close> answers \<^verbatim>\<open>null\<close> for a name it
  does not hold, so the model is a partial map from lower-case names to values.  Header
  values are byte strings, one \<open>char\<close> per code unit.
\<close>

type_synonym Headers = "string \<rightharpoonup> string"

text \<open>
  A value of TypeScript type \<^verbatim>\<open>number\<close> is an IEEE 754 double.  The numbers that
  this code can produce are \<^verbatim>\<open>NaN\<close>, the two infinities and the doubles whose value
  is a whole number, with the two zeros apart: \<open>Finite neg m\<close> is the double of sign
  \<open>neg\<close> and magnitude \<open>m\<close>.

  \<open>roundToDouble m\<close> is the magnitude of the double nearest to the whole number \<open>m\<close>
  (ties to the even significand), or \<open>None\<close> when that is infinite.  Below \<open>2 ^ 53\<close>
  every whole number is a double.  Above, a double has a significand \<open>q\<close> of 53 bits
  and an exponent \<open>e\<close>, and \<open>m\<close> is rounded to a multiple of \<open>2 ^ e\<close>; a result of
  \<open>2 ^ 1024\<close> or more overflows.
\<close>

datatype number = NaN | Infinity bool | Finite bool nat

fun bitlen :: "nat \<Rightarrow> nat" where
  "bitlen n = (if n = 0 then 0 else Suc (bitlen (n div 2)))"

declare bitlen.simps [simp del]

definition roundToDouble :: "nat \<Rightarrow> nat option" where
  "roundToDouble m =
     (if m < 2 ^ 53 then Some m
      else
        (let e = bitlen m - 53;
             q = m div 2 ^ e;
             r = m mod 2 ^ e;
             q' = (if 2 ^ e < 2 * r \<or> (2 * r = 2 ^ e \<and> odd q) then q + 1 else q)
         in if 2 ^ 1024 \<le> q' * 2 ^ e then None else Some (q' * 2 ^ e)))"

definition toNumber :: "bool \<Rightarrow> nat \<Rightarrow> number" where
  "toNumber neg m =
     (case roundToDouble m of None \<Rightarrow> Infinity neg | Some v \<Rightarrow> Finite neg v)"

text \<open>
  The operator \<^verbatim>\<open>*\<close> on these numbers (ECMA-262, Number::multiply): \<^verbatim>\<open>NaN\<close> is
  absorbing, infinity times zero is \<^verbatim>\<open>NaN\<close>, the sign of a product is negative when the
  signs differ, and a finite product is the exact product rounded to the nearest double.
  \<^verbatim>\<open>isNaN\<close> holds of \<^verbatim>\<open>NaN\<close> alone.
\<close>

fun number_times :: "number \<Rightarrow> number \<Rightarrow> number" where
  "number_times NaN y = NaN"
| "number_times x NaN = NaN"
| "number_times (Infinity a) (Infinity b) = Infinity (a \<noteq> b)"
| "number_times (Infinity a) (Finite b n) = (if n = 0 then NaN else Infinity (a \<noteq> b))"
| "number_times (Finite a m) (Infinity b) = (if m = 0 then NaN else Infinity (a \<noteq> b))"
| "number_times (Finite a m) (Finite b n) = toNumber (a \<noteq> b) (m * n)"

definition isNaN :: "number \<Rightarrow> bool" where
  "isNaN x \<longleftrightarrow> x = NaN"

text \<open>
  \<^verbatim>\<open>
  export class APIError extends Error {
    constructor(
      message: string,
      public readonly status: number,
      public readonly body?: unknown,
      public readonly headers?: Headers
    ) {
      super(message);
      this.name = 'APIError';
    }
  }
  \<close>
  An omitted optional argument is \<open>JUndefined\<close> for the body and \<open>None\<close> for the headers.
\<close>

record APIError =
  name :: string
  message :: string
  status :: number
  body :: json
  headers :: "Headers option"

definition APIError_new :: "string \<Rightarrow> number \<Rightarrow> json \<Rightarrow> Headers option \<Rightarrow> APIError" where
  "APIError_new msg st bd hs =
     \<lparr>name = ''APIError'', message = msg, status = st, body = bd, headers = hs\<rparr>"

text \<open>
  The platform function \<^verbatim>\<open>parseInt(string, 10)\<close> (ECMA-262, 19.2.5): leading white
  space is dropped, then one optional sign, then the longest run of decimal digits is
  read; an empty run gives \<^verbatim>\<open>NaN\<close>.  With radix 10 no \<^verbatim>\<open>0x\<close> prefix is
  recognised.  The result is the double nearest to the whole number that the digits
  spell, with the sign read before them, so \<^verbatim>\<open>'-0'\<close> parses to the negative zero.
  (The standard lets an engine read the digits after the twentieth as zeros; the model
  reads every digit, as the engines in use do.)
\<close>

definition isWhiteSpace :: "char \<Rightarrow> bool" where
  "isWhiteSpace c \<longleftrightarrow>
     c \<in> {CHR 0x09, CHR 0x0A, CHR 0x0B, CHR 0x0C, CHR 0x0D, CHR 0x20, CHR 0xA0}"

definition isDigit :: "char \<Rightarrow> bool" where
  "isDigit c \<longleftrightarrow> 48 \<le> (of_char c :: nat) \<and> (of_char c :: nat) \<le> 57"

definition mathInt :: "string \<Rightarrow> nat" where
  "mathInt Z = foldl (\<lambda>acc c. 10 * acc + (of_char c - 48)) 0 Z"

definition parseInt10 :: "string \<Rightarrow> number" where
  "parseInt10 inputString =
     (let S = dropWhile isWhiteSpace inputString;
          neg = (S \<noteq> [] \<and> hd S = CHR ''-'');
          S' = (if S \<noteq> [] \<and> (hd S = CHR ''+'' \<or> hd S = CHR ''-'') then tl S else S);
          Z = takeWhile isDigit S'
      in if Z = [] then NaN else toNumber neg (mathInt Z))"

text \<open>
  \<^verbatim>\<open>
  export class RateLimitError extends APIError {
    public readonly retryAfter?: number;

    constructor(message: string, body?: unknown, headers?: Headers) {
      super(message, 429, body, headers);
      this.name = 'RateLimitError';
      this.retryAfter = this.parseRetryAfter(headers);
    }

    private parseRetryAfter(headers?: Headers): number | undefined {
      const value = headers?.get('retry-after');
      if (!value) return undefined;
      const seconds = parseInt(value, 10);
      return isNaN(seconds) ? undefined : seconds * 1000;
    }
  }
  \<close>
  \<^verbatim>\<open>!value\<close> holds for \<^verbatim>\<open>undefined\<close> (no headers object), for \<^verbatim>\<open>null\<close> (no
  such header) and for the empty string.  The product \<^verbatim>\<open>seconds * 1000\<close> is a product
  of doubles.
\<close>

record RateLimitError = APIError +
  retryAfter :: "number option"

definition parseRetryAfter :: "Headers option \<Rightarrow> number option" where
  "parseRetryAfter hs =
     (let value = (case hs of None \<Rightarrow> None | Some h \<Rightarrow> h ''retry-after'')
      in case value of
           None \<Rightarrow> None
         | Some v \<Rightarrow>
             if v = [] then None
             else (let seconds = parseInt10 v
                   in if isNaN seconds then None
                      else Some (number_times seconds (Finite False 1000))))"

definition RateLimitError_new :: "string \<Rightarrow> json \<Rightarrow> Headers option \<Rightarrow> RateLimitError" where
  "RateLimitError_new msg bd hs =
     (let super = APIError_new msg (Finite False 429) bd hs
      in \<lparr>name = ''RateLimitError'', message = message super, status = status super,
          body = body super, headers = headers super,
          retryAfter = parseRetryAfter hs\<rparr>)"

section \<open>Properties of the number model\<close>

lemma bitlen_bounds: "0 < m \<Longrightarrow> 2 ^ (bitlen m - 1) \<le> m \<and> m < 2 ^ bitlen m"
proof (induction m rule: bitlen.induct)
  case (1 n)
  show ?case
  proof (cases "n div 2 = 0")
    case True
    with "1.prems" have "n = 1" by (simp add: div_eq_0_iff)
    then show ?thesis by (simp add: bitlen.simps)
  next
    case False
    with "1.IH" "1.prems"
    have ih: "2 ^ (bitlen (n div 2) - 1) \<le> n div 2" "n div 2 < 2 ^ bitlen (n div 2)"
      by simp_all
    from False have pos: "0 < bitlen (n div 2)"
      by (subst bitlen.simps) simp
    from "1.prems" have bl: "bitlen n = Suc (bitlen (n div 2))"
      by (subst bitlen.simps) simp
    from pos have "(2::nat) ^ bitlen (n div 2) = 2 * 2 ^ (bitlen (n div 2) - 1)"
      by (cases "bitlen (n div 2)") simp_all
    with ih(1) have lower: "2 ^ bitlen (n div 2) \<le> n" by linarith
    from ih(2) have upper: "n < 2 * 2 ^ bitlen (n div 2)" by linarith
    from lower upper bl show ?thesis by simp
  qed
qed

lemma roundToDouble_exact: "m < 2 ^ 53 \<Longrightarrow> roundToDouble m = Some m"
  by (simp add: roundToDouble_def)

text \<open>
  The rounded value is a double, a significand of at most 53 bits times a power of two,
  and it lies within half a unit in the last place of the number rounded.
\<close>

lemma roundToDouble_nearest:
  assumes "roundToDouble m = Some v"
  shows "\<exists>q e. v = q * 2 ^ e \<and> q \<le> 2 ^ 53
           \<and> 2 * v \<le> 2 * m + 2 ^ e \<and> 2 * m \<le> 2 * v + 2 ^ e"
proof (cases "m < 2 ^ 53")
  case True
  with assms have "v = m"
    by (simp add: roundToDouble_def)
  with True
  have "v = m * 2 ^ 0 \<and> m \<le> 2 ^ 53 \<and> 2 * v \<le> 2 * m + 2 ^ 0 \<and> 2 * m \<le> 2 * v + 2 ^ 0"
    by simp
  then show ?thesis by blast
next
  case False
  define e where "e = bitlen m - 53"
  define P :: nat where "P = 2 ^ e"
  define q where "q = m div P"
  define r where "r = m mod P"
  define q' where "q' = (if P < 2 * r \<or> (2 * r = P \<and> odd q) then q + 1 else q)"
  have unfold: "roundToDouble m = (if 2 ^ 1024 \<le> q' * P then None else Some (q' * P))"
    by (simp only: roundToDouble_def Let_def e_def P_def q_def r_def q'_def False if_False)
  with assms have v: "v = q' * P"
    by (simp split: if_splits)
  from False have pos: "0 < m" and ge: "2 ^ 53 \<le> m"
    by simp_all
  from bitlen_bounds [OF pos] have hi: "m < 2 ^ bitlen m"
    by simp
  have "53 < bitlen m"
    by (rule power_less_imp_less_exp [OF _ le_less_trans [OF ge hi]]) simp
  then have "bitlen m = 53 + e"
    by (simp add: e_def)
  with hi have "m < 2 ^ 53 * P"
    by (simp only: P_def power_add)
  then have q53: "q < 2 ^ 53"
    unfolding q_def by (simp add: less_mult_imp_div_less mult.commute)
  have Ppos: "0 < P" by (simp add: P_def)
  have m: "m = q * P + r"
    by (simp add: q_def r_def)
  have r: "r < P"
    unfolding r_def using Ppos by simp
  show ?thesis
  proof (cases "P < 2 * r \<or> (2 * r = P \<and> odd q)")
    case True
    then have up: "q' = q + 1" by (simp add: q'_def)
    with v have v': "v = q * P + P" by (simp add: algebra_simps)
    from True have "P \<le> 2 * r" by auto
    with v' m r q53 up v
    have "v = q' * 2 ^ e \<and> q' \<le> 2 ^ 53 \<and> 2 * v \<le> 2 * m + 2 ^ e \<and> 2 * m \<le> 2 * v + 2 ^ e"
      by (simp add: P_def [symmetric])
    then show ?thesis by blast
  next
    case False
    then have down: "q' = q" by (simp add: q'_def)
    with v have v': "v = q * P" by simp
    from False have "2 * r \<le> P" by auto
    with v' m r q53 down v
    have "v = q' * 2 ^ e \<and> q' \<le> 2 ^ 53 \<and> 2 * v \<le> 2 * m + 2 ^ e \<and> 2 * m \<le> 2 * v + 2 ^ e"
      by (simp add: P_def [symmetric])
    then show ?thesis by blast
  qed
qed

lemma scaled_lower:
  fixes m q' a e :: nat
  assumes "2 ^ (a + e) \<le> m" and "m div 2 ^ e \<le> q'"
  shows "2 ^ (a + e) \<le> q' * 2 ^ e"
proof -
  from assms(1) have "2 ^ a * 2 ^ e \<le> m"
    by (simp only: power_add)
  then have "2 ^ a \<le> m div 2 ^ e"
    by (simp add: less_eq_div_iff_mult_less_eq)
  with assms(2) have "2 ^ a \<le> q'"
    by (rule order_trans [rotated])
  then have "2 ^ a * 2 ^ e \<le> q' * 2 ^ e"
    by (rule mult_le_mono1)
  then show ?thesis
    by (simp only: power_add)
qed

text \<open>A whole number of \<open>2 ^ 1024\<close> or more has no finite double.\<close>

lemma roundToDouble_overflow:
  assumes "2 ^ 1024 \<le> m"
  shows "roundToDouble m = None"
proof -
  define e where "e = bitlen m - 53"
  define q where "q = m div 2 ^ e"
  define r where "r = m mod 2 ^ e"
  define q' where "q' = (if 2 ^ e < 2 * r \<or> (2 * r = 2 ^ e \<and> odd q) then q + 1 else q)"
  have "(2::nat) ^ 53 \<le> 2 ^ 1024"
    by (rule power_increasing) simp_all
  with assms have "2 ^ 53 \<le> m"
    by (rule order_trans [rotated])
  then have big: "\<not> m < 2 ^ 53" and pos: "0 < m"
    by simp_all
  from bitlen_bounds [OF pos] have lo: "2 ^ (bitlen m - 1) \<le> m" and hi: "m < 2 ^ bitlen m"
    by simp_all
  from assms hi have pw: "(2::nat) ^ 1024 < 2 ^ bitlen m" by (rule le_less_trans)
  have k: "1024 < bitlen m"
    by (rule power_less_imp_less_exp [OF _ pw]) simp
  then have len: "bitlen m - 1 = 52 + e" by (simp add: e_def)
  from lo have "2 ^ (52 + e) \<le> m"
    by (simp only: len)
  moreover have "m div 2 ^ e \<le> q'"
    by (simp add: q'_def q_def)
  ultimately have "2 ^ (52 + e) \<le> q' * 2 ^ e"
    by (rule scaled_lower)
  moreover from k have "(2::nat) ^ 1024 \<le> 2 ^ (52 + e)"
    by (intro power_increasing) (simp_all add: e_def)
  ultimately have over: "2 ^ 1024 \<le> q' * 2 ^ e"
    by (rule order_trans [rotated])
  have "roundToDouble m = (if 2 ^ 1024 \<le> q' * 2 ^ e then None else Some (q' * 2 ^ e))"
    by (simp only: roundToDouble_def Let_def e_def q_def r_def q'_def big if_False)
  with over show ?thesis
    by (simp only: if_True)
qed

lemma times_thousand_exact:
  "m * 1000 < 2 ^ 53 \<Longrightarrow>
   number_times (Finite neg m) (Finite False 1000) = Finite neg (m * 1000)"
  by (simp add: toNumber_def roundToDouble_exact)

section \<open>Properties of the error classes\<close>

lemmas parse_unfold =
  parseInt10_def isWhiteSpace_def isDigit_def mathInt_def toNumber_def roundToDouble_def
  bitlen.simps Let_def

lemma parseInt10_empty: "parseInt10 [] = NaN"
  by (simp add: parseInt10_def)

lemma parseInt10_sixty: "parseInt10 ''60'' = Finite False 60"
  by (simp add: parse_unfold)

lemma parseInt10_examples:
  "parseInt10 '' 12abc'' = Finite False 12"
  "parseInt10 ''-5'' = Finite True 5"
  "parseInt10 ''+7.9'' = Finite False 7"
  "parseInt10 ''-0'' = Finite True 0"
  "parseInt10 ''invalid'' = NaN"
  "parseInt10 ''- 5'' = NaN"
  "parseInt10 ''9007199254740993'' = Finite False 9007199254740992"
  by (simp_all add: parse_unfold)

lemma parseRetryAfter_lookup:
  "parseRetryAfter hs =
     (case hs of
        None \<Rightarrow> None
      | Some h \<Rightarrow>
          (case h ''retry-after'' of
             None \<Rightarrow> None
           | Some v \<Rightarrow>
               if isNaN (parseInt10 v) then None
               else Some (number_times (parseInt10 v) (Finite False 1000))))"
  by (simp add: parseRetryAfter_def Let_def parseInt10_empty isNaN_def split: option.splits)

text \<open>
  Claim C10.  Whatever the message, body and headers, a constructed
  \<^verbatim>\<open>RateLimitError\<close> has status 429 and name \<^verbatim>\<open>'RateLimitError'\<close>.  Its
  \<^verbatim>\<open>retryAfter\<close> is undefined when there are no headers, no \<^verbatim>\<open>retry-after\<close> header,
  or a value whose base-10 integer parse is \<^verbatim>\<open>NaN\<close>; otherwise it is that parse times
  1000, a product of doubles.  When the header parses to the whole number \<open>m\<close> and
  \<open>m * 1000\<close> is below \<open>2 ^ 53\<close>, the product is exact: \<^verbatim>\<open>retryAfter\<close> is the whole
  number \<open>m * 1000\<close>, with the sign of the parse.
\<close>

theorem RateLimitError_fields:
  "status (RateLimitError_new msg bd hs) = Finite False 429
   \<and> name (RateLimitError_new msg bd hs) = ''RateLimitError''
   \<and> retryAfter (RateLimitError_new msg bd hs) =
       (case hs of
          None \<Rightarrow> None
        | Some h \<Rightarrow>
            (case h ''retry-after'' of
               None \<Rightarrow> None
             | Some v \<Rightarrow>
                 if isNaN (parseInt10 v) then None
                 else Some (number_times (parseInt10 v) (Finite False 1000))))
   \<and> (\<forall>h v neg m.
          hs = Some h \<and> h ''retry-after'' = Some v \<and> parseInt10 v = Finite neg m
            \<and> m * 1000 < 2 ^ 53
          \<longrightarrow> retryAfter (RateLimitError_new msg bd hs) = Some (Finite neg (m * 1000)))"
proof -
  have fields: "status (RateLimitError_new msg bd hs) = Finite False 429"
    "name (RateLimitError_new msg bd hs) = ''RateLimitError''"
    "retryAfter (RateLimitError_new msg bd hs) = parseRetryAfter hs"
    by (simp_all add: RateLimitError_new_def APIError_new_def Let_def)
  have exact: "retryAfter (RateLimitError_new msg bd hs) = Some (Finite neg (m * 1000))"
    if "hs = Some h" "h ''retry-after'' = Some v" "parseInt10 v = Finite neg m"
      "m * 1000 < 2 ^ 53" for h v neg m
    using that fields(3) times_thousand_exact [of m neg]
    by (simp add: parseRetryAfter_lookup isNaN_def)
  from fields exact show ?thesis
    by (simp add: parseRetryAfter_lookup)
qed

theorem RateLimitError_fields_witness:
  "parseInt10 ''60'' = Finite False 60
   \<and> (60::nat) * 1000 < 2 ^ 53
   \<and> status (RateLimitError_new ''Rate limited'' JUndefined
               (Some [''retry-after'' \<mapsto> ''60''])) = Finite False 429
   \<and> name (RateLimitError_new ''Rate limited'' JUndefined
             (Some [''retry-after'' \<mapsto> ''60''])) = ''RateLimitError''
   \<and> retryAfter (RateLimitError_new ''Rate limited'' JUndefined
                   (Some [''retry-after'' \<mapsto> ''60''])) = Some (Finite False 60000)"
proof -
  let ?e = "RateLimitError_new ''Rate limited'' JUndefined
              (Some [''retry-after'' \<mapsto> ''60''])"
  note fields = RateLimitError_fields [of "''Rate limited''" JUndefined
      "Some [''retry-after'' \<mapsto> ''60'']"]
  have parse: "parseInt10 ''60'' = Finite False 60"
    by (rule parseInt10_sixty)
  have bound: "(60::nat) * 1000 < 2 ^ 53"
    by simp
  from fields have "status ?e = Finite False 429" and "name ?e = ''RateLimitError''"
    by simp_all
  moreover have "retryAfter ?e = Some (Finite False (60 * 1000))"
    by (rule fields [THEN conjunct2, THEN conjunct2, THEN conjunct2, rule_format,
          where h = "[''retry-after'' \<mapsto> ''60'']" and v = "''60''"])
      (simp add: parse)
  ultimately show ?thesis
    using parse bound by simp
qed

text \<open>
  Beyond \<open>2 ^ 53\<close> the stored number is the rounded one: a product that is not a
  double is rounded, a parse that is not a double is rounded before it is multiplied,
  the negative zero stays negative, and a value too long for a double gives infinity.
\<close>

lemma RateLimitError_retry_after_rounded:
  "retryAfter (RateLimitError_new msg bd (Some [''retry-after'' \<mapsto> ''72057594037929'']))
     = Some (Finite False 72057594037928992)"
  "retryAfter (RateLimitError_new msg bd (Some [''retry-after'' \<mapsto> ''9007199254740993'']))
     = Some (Finite False 9007199254740992000)"
  "retryAfter (RateLimitError_new msg bd (Some [''retry-after'' \<mapsto> ''-0'']))
     = Some (Finite True 0)"
  by (simp_all add: RateLimitError_new_def parseRetryAfter_def isNaN_def parse_unfold)

lemma RateLimitError_retry_after_infinite:
  "retryAfter (RateLimitError_new msg bd (Some [''retry-after'' \<mapsto>
     ''1000000000000000000000000000000000000000000000000000000000000000000000000000000000000000000000000000000000000000000000000000000000000000000000000000000000000000000000000000000000000000000000000000000000000000000000000000000000000000000000000000000000000000000000000000000000000000000000000000000000000000000000'']))
   = Some (Infinity False)"
  (is "retryAfter (RateLimitError_new msg bd (Some [''retry-after'' \<mapsto> ?z])) = _")
proof -
  have big: "2 ^ 1024 \<le> mathInt ?z"
    by (simp add: mathInt_def)
  have "parseInt10 ?z = toNumber False (mathInt ?z)"
    by (simp add: parseInt10_def isWhiteSpace_def isDigit_def Let_def)
  also have "\<dots> = Infinity False"
    by (simp only: toNumber_def roundToDouble_overflow [OF big] option.case)
  finally show ?thesis
    by (simp add: RateLimitError_new_def parseRetryAfter_def isNaN_def Let_def)
qed

section \<open>Properties of the sketched pointer parser\<close>

text \<open>
  What the file's own hint means the parser to do: it is the behaviour that the tests of
  \<^verbatim>\<open>parseJsonPointer\<close> ask for.
\<close>

lemma replaceAll_Nil [simp]: "replaceAll pat rep [] = []"
  by (simp add: replaceAll.simps)

lemma replaceAll_char_Cons:
  "replaceAll [p] rep (c # cs) =
     (if c = p then rep @ replaceAll [p] rep cs else c # replaceAll [p] rep cs)"
  by (subst replaceAll.simps) simp

lemma replaceAll_pair_other:
  "c \<noteq> p \<Longrightarrow> replaceAll [p, q] rep (c # cs) = c # replaceAll [p, q] rep cs"
  by (subst replaceAll.simps) (cases cs; simp)

lemma replaceAll_pair_match:
  "replaceAll [p, q] rep (p # q # cs) = rep @ replaceAll [p, q] rep cs"
  by (subst replaceAll.simps) simp

lemma replaceAll_pair_miss:
  "d \<noteq> q \<Longrightarrow> d \<noteq> p \<Longrightarrow>
   replaceAll [p, q] rep (p # d # cs) = p # d # replaceAll [p, q] rep cs"
  by (subst replaceAll.simps, simp, subst replaceAll.simps, cases cs; simp)

lemmas replaceAll_unfold =
  replaceAll_char_Cons replaceAll_pair_other replaceAll_pair_match replaceAll_pair_miss

lemma hint_parseJsonPointer_root: "hint_parseJsonPointer ''#'' = Inr []"
  by (simp add: hint_parseJsonPointer_def)

lemma hint_parseJsonPointer_escaped:
  "hint_parseJsonPointer ''#/a~1b/c~0d'' = Inr [''a/b'', ''c~d'']"
  by (simp add: hint_parseJsonPointer_def unescapePointer_def replaceAll_unfold)

lemma hint_parseJsonPointer_no_hash:
  "take 1 pointer \<noteq> ''#'' \<Longrightarrow>
   hint_parseJsonPointer pointer = Inl (Error (''Invalid JSON pointer: '' @ pointer))"
  by (cases pointer) (auto simp add: hint_parseJsonPointer_def)

text \<open>Escaping undoes unescaping on a valid segment that holds no separator.\<close>

lemma escape_unescape:
  "well_escaped w \<Longrightarrow> CHR ''/'' \<notin> set w \<Longrightarrow> escapePointer (unescapePointer w) = w"
proof (induction w rule: well_escaped.induct)
  case 1
  show ?case by (simp add: escapePointer_def unescapePointer_def)
next
  case (2 c cs)
  show ?case
  proof (cases "c = CHR ''~''")
    case False
    with 2 show ?thesis
      by (auto simp add: escapePointer_def unescapePointer_def replaceAll_unfold)
  next
    case True
    with "2.prems" obtain d ds where cs: "cs = d # ds" and d: "d = CHR ''0'' \<or> d = CHR ''1''"
      and ds: "well_escaped ds"
      by (cases cs) auto
    from "2.prems" cs have nos: "CHR ''/'' \<notin> set ds" by simp
    from "2.IH"(1) [OF True cs] d ds nos
    have ih: "escapePointer (unescapePointer ds) = ds" by simp
    from d show ?thesis
    proof
      assume "d = CHR ''0''"
      with True cs ih show ?thesis
        by (simp add: escapePointer_def unescapePointer_def replaceAll_unfold)
    next
      assume "d = CHR ''1''"
      with True cs ih show ?thesis
        by (simp add: escapePointer_def unescapePointer_def replaceAll_unfold)
    qed
  qed
qed

lemma split_not_Nil [simp]: "split sep s \<noteq> []"
  by (induction s) (auto split: list.splits)

lemma join_Cons: "ws \<noteq> [] \<Longrightarrow> join sep (w # ws) = w @ sep @ join sep ws"
  by (cases ws) simp_all

lemma join_split: "join [sep] (split sep s) = s"
proof (induction s)
  case Nil
  show ?case by simp
next
  case (Cons c cs)
  show ?case
  proof (cases "c = sep")
    case True
    with Cons show ?thesis by (simp add: join_Cons)
  next
    case False
    obtain w ws where sp: "split sep cs = w # ws"
      by (cases "split sep cs") simp_all
    with Cons False show ?thesis
      by (cases ws) simp_all
  qed
qed

lemma split_no_sep: "w \<in> set (split sep s) \<Longrightarrow> sep \<notin> set w"
  by (induction s arbitrary: w) (auto split: if_splits list.splits)

text \<open>A separator never stands between a \<^verbatim>\<open>~\<close> and its digit, so the pieces stay valid.\<close>

lemma split_well_escaped:
  "well_escaped s \<Longrightarrow> w \<in> set (split CHR ''/'' s) \<Longrightarrow> well_escaped w"
proof (induction s arbitrary: w rule: well_escaped.induct)
  case 1
  then show ?case by simp
next
  case (2 c cs)
  show ?case
  proof (cases "c = CHR ''~''")
    case False
    note notilde = this
    show ?thesis
    proof (cases "c = CHR ''/''")
      case True
      with 2 notilde show ?thesis by auto
    next
      case False
      obtain v vs where sp: "split CHR ''/'' cs = v # vs"
        by (cases "split CHR ''/'' cs") simp_all
      with 2 notilde False show ?thesis by auto
    qed
  next
    case True
    with "2.prems" obtain d ds where cs: "cs = d # ds" and d: "d = CHR ''0'' \<or> d = CHR ''1''"
      and ds: "well_escaped ds"
      by (cases cs) auto
    obtain v vs where sp: "split CHR ''/'' ds = v # vs"
      by (cases "split CHR ''/'' ds") simp_all
    from "2.IH"(1) [OF True cs] d ds
    have ih: "\<And>u. u \<in> set (split CHR ''/'' ds) \<Longrightarrow> well_escaped u" by simp
    from ih [of v] sp have v: "well_escaped v" by simp
    from "2.prems"(2) True cs d sp have "w = c # d # v \<or> w \<in> set vs"
      by auto
    then show ?thesis
    proof
      assume "w = c # d # v"
      with True d v show ?thesis by auto
    next
      assume "w \<in> set vs"
      with ih [of w] sp show ?thesis by simp
    qed
  qed
qed

text \<open>
  The round-trip law holds of the sketch: a valid pointer that begins with \<^verbatim>\<open>#/\<close>
  parses, and its segments, escaped and joined again, give the pointer back.
\<close>

lemma hint_round_trip:
  assumes "take 2 p = ''#/''" and "well_escaped (drop 2 p)"
  shows "\<exists>segs. hint_parseJsonPointer p = Inr segs
           \<and> ''#/'' @ join ''/'' (map escapePointer segs) = p"
proof -
  let ?ws = "split CHR ''/'' (drop 2 p)"
  have "map escapePointer (map unescapePointer ?ws) = ?ws"
    using assms(2) by (simp add: map_idI escape_unescape split_no_sep split_well_escaped)
  moreover have "''#/'' @ join ''/'' ?ws = p"
    using assms(1) append_take_drop_id [of 2 p] by (simp add: join_split)
  ultimately show ?thesis
    using assms(1) by (simp add: hint_parseJsonPointer_def)
qed

lemma hint_round_trip_example:
  "\<exists>segs. hint_parseJsonPointer ''#/a~1b/c~0d'' = Inr segs
     \<and> ''#/'' @ join ''/'' (map escapePointer segs) = ''#/a~1b/c~0d''"
  by (rule hint_round_trip) simp_all

section \<open>Properties of the resolver's exported functions\<close>

text \<open>
  Claim C1.  For every input, each of the six exported functions of the resolver
  (\<^verbatim>\<open>parseJsonPointer\<close>, \<^verbatim>\<open>resolvePointer\<close>, \<^verbatim>\<open>resolveRefs\<close>,
  \<^verbatim>\<open>resolveDocument\<close>, \<^verbatim>\<open>hasUnresolvedRefs\<close>, \<^verbatim>\<open>collectRefs\<close>) throws an
  error with the message \<^verbatim>\<open>'Not implemented'\<close> and returns no value.
\<close>

theorem exported_functions_throw_not_implemented:
  "parseJsonPointer pointer = Inl (Error ''Not implemented'')
   \<and> resolvePointer document path = Inl (Error ''Not implemented'')
   \<and> fst (resolveRefs schema document options) = Inl (Error ''Not implemented'')
   \<and> fst (resolveDocument document options) = Inl (Error ''Not implemented'')
   \<and> hasUnresolvedRefs schema = Inl (Error ''Not implemented'')
   \<and> collectRefs schema = Inl (Error ''Not implemented'')"
  by (simp add: parseJsonPointer_def resolvePointer_def resolveRefs_def
      resolveDocument_def hasUnresolvedRefs_def collectRefs_def)

text \<open>
  Claim C6.  For every schema and document, the call
  \<^verbatim>\<open>resolveRefs(schema, document, { mutate: false })\<close> leaves the schema and the
  document as they were before the call.
\<close>

theorem resolveRefs_mutate_false_keeps_inputs:
  "snd (resolveRefs schema document
          (Some \<lparr>circularHandling = None, maxDepth = None, mutate = Some False\<rparr>))
   = (schema, document)"
  by (simp add: resolveRefs_def)

text \<open>
  Claim C2, at the input of the test of the \<^verbatim>\<open>mark\<close> mode.  The claim wants the
  call to succeed, with the circular marker in place of the reference and the pointer in
  \<^verbatim>\<open>circularRefs\<close>; the call throws \<^verbatim>\<open>'Not implemented'\<close>.
\<close>

theorem resolveRefs_mark_self_reference_throws:
  "fst (resolveRefs Node_children (document_of [(''Node'', Node_children)])
          (Some \<lparr>circularHandling = Some CH_mark, maxDepth = None, mutate = None\<rparr>))
   = Inl (Error ''Not implemented'')"
  by (simp add: resolveRefs_def)

text \<open>
  Claim C3, at the schema \<^verbatim>\<open>A\<close> that refers to itself.  The claim wants a
  circular-reference error under \<^verbatim>\<open>error\<close> and a successful call that keeps the
  reference under \<^verbatim>\<open>lazy\<close>; both calls throw \<^verbatim>\<open>'Not implemented'\<close>, whose
  message does not speak of a circular reference.
\<close>

theorem resolveRefs_error_lazy_self_reference_throw:
  "fst (resolveRefs A_self (document_of [(''A'', A_self)])
          (Some \<lparr>circularHandling = Some CH_error, maxDepth = None, mutate = None\<rparr>))
   = Inl (Error ''Not implemented'')
   \<and> \<not> occurs_in ''ircular'' (message_of (Error ''Not implemented''))
   \<and> fst (resolveRefs A_self (document_of [(''A'', A_self)])
          (Some \<lparr>circularHandling = Some CH_lazy, maxDepth = None, mutate = None\<rparr>))
     = Inl (Error ''Not implemented'')"
  by (simp add: resolveRefs_def)

text \<open>
  Claim C4, at the pointer of the test of complex escaping.  The claim wants the segments
  \<^verbatim>\<open>['a/b', 'c~d']\<close>; the call throws, so there are no segments to join again.
\<close>

theorem parseJsonPointer_escaped_pointer_throws:
  "parseJsonPointer ''#/a~1b/c~0d'' = Inl (Error ''Not implemented'')
   \<and> parseJsonPointer ''#/a~1b/c~0d'' \<noteq> Inr [''a/b'', ''c~d'']"
  by (simp add: parseJsonPointer_def)

text \<open>
  Claim C5, at the external reference of the test.  The claim wants an error that says
  the reference is external and names the pointer; the error thrown is
  \<^verbatim>\<open>'Not implemented'\<close>, which does neither.
\<close>

theorem resolveRefs_external_reference_throws_not_implemented:
  "fst (resolveRefs external_schema baseDoc None) = Inl (Error ''Not implemented'')
   \<and> \<not> occurs_in ''xternal'' (message_of (Error ''Not implemented''))
   \<and> \<not> occurs_in ''./other.yaml#/schemas/Foo'' (message_of (Error ''Not implemented''))"
  by (simp add: resolveRefs_def)

text \<open>
  Claim C7, at the array document of the test.  The claim wants the value \<^verbatim>\<open>'b'\<close>;
  the call throws.
\<close>

theorem resolvePointer_array_index_throws:
  "resolvePointer docWithArray [''items'', ''1''] = Inl (Error ''Not implemented'')
   \<and> resolvePointer docWithArray [''items'', ''1''] \<noteq> Inr (JStr ''b'')"
  by (simp add: resolvePointer_def)

text \<open>
  Claim C8, at the root pointer.  The claim wants the empty list of segments; the call
  throws.
\<close>

theorem parseJsonPointer_root_throws:
  "parseJsonPointer ''#'' = Inl (Error ''Not implemented'')
   \<and> parseJsonPointer ''#'' \<noteq> Inr []"
  by (simp add: parseJsonPointer_def)

text \<open>
  Claim C9, at the \<^verbatim>\<open>oneOf\<close> schema of the test and at a schema without a
  reference.  The claim wants the set of the two pointers and the empty set; both calls
  throw.
\<close>

theorem collectRefs_throws:
  "collectRefs oneOf_schema = Inl (Error ''Not implemented'')
   \<and> collectRefs oneOf_schema
       \<noteq> Inr {''#/components/schemas/A'', ''#/components/schemas/B''}
   \<and> collectRefs (JObj [(''type'', JStr ''string'')]) = Inl (Error ''Not implemented'')
   \<and> collectRefs (JObj [(''type'', JStr ''string'')]) \<noteq> Inr {}"
  by (simp add: collectRefs_def)

end
